theory Spec2Isabelle
  imports Complex_Main
begin

section \<open>Shared vocabulary of package ipld\<close>

text \<open>
  Modelled from the spec: the enumeration of representation kinds is declared in package
  ipld outside the files at hand; the spec lists it as the closed set null, bool, int,
  float, string, bytes, link, map, list.
\<close>

datatype ReprKind =
    ReprKind_Null | ReprKind_Bool | ReprKind_Int | ReprKind_Float | ReprKind_String
  | ReprKind_Bytes | ReprKind_Link | ReprKind_Map | ReprKind_List

type_synonym ReprKindSet = "ReprKind list"

text \<open>
  Modelled from the spec: the kind-set constants used by the accessors are declared in
  package ipld outside the files at hand. Each \<open>ReprKindSet_Just<K>\<close> is the set holding
  the one kind \<open>K\<close> that its name spells.
\<close>

definition ReprKindSet_JustBool :: ReprKindSet where
  "ReprKindSet_JustBool = [ReprKind_Bool]"

definition ReprKindSet_JustInt :: ReprKindSet where
  "ReprKindSet_JustInt = [ReprKind_Int]"

definition ReprKindSet_JustFloat :: ReprKindSet where
  "ReprKindSet_JustFloat = [ReprKind_Float]"

definition ReprKindSet_JustString :: ReprKindSet where
  "ReprKindSet_JustString = [ReprKind_String]"

definition ReprKindSet_JustBytes :: ReprKindSet where
  "ReprKindSet_JustBytes = [ReprKind_Bytes]"

definition ReprKindSet_JustLink :: ReprKindSet where
  "ReprKindSet_JustLink = [ReprKind_Link]"

text \<open>
  The node values that the generated types hand out as keys and fields: a \<open>plainString\<close>
  or a \<open>plainInt\<close>. The iterators return a field as a pointer into the node
  (\<^verbatim>\<open>&itr.n.u\<close>); a node is not written to while it is iterated, so the model
  takes the field's content for the pointer.
\<close>

datatype gendemo_Node = plainString string | plainInt int

text \<open>
  The error values of the code: \<^verbatim>\<open>fmt.Errorf\<close> with its message, and the three
  error structs of package ipld with the fields the code fills in.
\<close>

datatype error =
    Errorf string
  | ErrWrongKind (TypeName: string) (MethodName: string)
      (AppropriateKind: ReprKindSet) (ActualKind: ReprKind)
  | ErrIteratorOverread
  | ErrRepeatedMapKey gendemo_Node

text \<open>
  A call either returns its results or panics with a message. A \<^verbatim>\<open>nil\<close> interface
  value or \<^verbatim>\<open>nil\<close> error is \<open>None\<close>.
\<close>

datatype 'a outcome = is_Returns: Returns 'a | Panics string

typedecl Link

section \<open>The generated struct types K2 and T2\<close>

record K2 =
  K2_u :: string
  K2_i :: string

record T2 =
  T2_a :: int
  T2_b :: int
  T2_c :: int
  T2_d :: int

definition K2_ReprKind :: "K2 \<Rightarrow> ReprKind" where
  "K2_ReprKind n = ReprKind_Map"

definition K2_Length :: "K2 \<Rightarrow> int" where
  "K2_Length n = - 1"

definition K2_AsBool :: "K2 \<Rightarrow> bool \<times> error option" where
  "K2_AsBool n =
     (False, Some (ErrWrongKind ''K2'' ''AsBool'' ReprKindSet_JustBool ReprKind_Map))"

definition K2_AsInt :: "K2 \<Rightarrow> int \<times> error option" where
  "K2_AsInt n =
     (0, Some (ErrWrongKind ''K2'' ''AsInt'' ReprKindSet_JustFloat ReprKind_Map))"

definition K2_AsFloat :: "K2 \<Rightarrow> real \<times> error option" where
  "K2_AsFloat n =
     (0, Some (ErrWrongKind ''K2'' ''AsFloat'' ReprKindSet_JustFloat ReprKind_Map))"

definition K2_AsString :: "K2 \<Rightarrow> string \<times> error option" where
  "K2_AsString n =
     ('''', Some (ErrWrongKind ''K2'' ''AsString'' ReprKindSet_JustString ReprKind_Map))"

definition K2_AsBytes :: "K2 \<Rightarrow> nat list option \<times> error option" where
  "K2_AsBytes n =
     (None, Some (ErrWrongKind ''K2'' ''AsBytes'' ReprKindSet_JustBytes ReprKind_Map))"

definition K2_AsLink :: "K2 \<Rightarrow> Link option \<times> error option" where
  "K2_AsLink n =
     (None, Some (ErrWrongKind ''K2'' ''AsLink'' ReprKindSet_JustLink ReprKind_Map))"

definition T2_ReprKind :: "T2 \<Rightarrow> ReprKind" where
  "T2_ReprKind n = ReprKind_Map"

definition T2_Length :: "T2 \<Rightarrow> int" where
  "T2_Length n = - 1"

definition T2_AsBool :: "T2 \<Rightarrow> bool \<times> error option" where
  "T2_AsBool n =
     (False, Some (ErrWrongKind ''T2'' ''AsBool'' ReprKindSet_JustBool ReprKind_Map))"

definition T2_AsInt :: "T2 \<Rightarrow> int \<times> error option" where
  "T2_AsInt n =
     (0, Some (ErrWrongKind ''T2'' ''AsInt'' ReprKindSet_JustFloat ReprKind_Map))"

definition T2_AsFloat :: "T2 \<Rightarrow> real \<times> error option" where
  "T2_AsFloat n =
     (0, Some (ErrWrongKind ''T2'' ''AsFloat'' ReprKindSet_JustFloat ReprKind_Map))"

definition T2_AsString :: "T2 \<Rightarrow> string \<times> error option" where
  "T2_AsString n =
     ('''', Some (ErrWrongKind ''T2'' ''AsString'' ReprKindSet_JustString ReprKind_Map))"

definition T2_AsBytes :: "T2 \<Rightarrow> nat list option \<times> error option" where
  "T2_AsBytes n =
     (None, Some (ErrWrongKind ''T2'' ''AsBytes'' ReprKindSet_JustBytes ReprKind_Map))"

definition T2_AsLink :: "T2 \<Rightarrow> Link option \<times> error option" where
  "T2_AsLink n =
     (None, Some (ErrWrongKind ''T2'' ''AsLink'' ReprKindSet_JustLink ReprKind_Map))"

subsection \<open>Map iterators\<close>

text \<open>
  An iterator is the node it walks and a cursor. The cursor is a Go \<^verbatim>\<open>int\<close>; it is
  incremented only when it is 0 or 1 (K2), or 0 to 3 (T2), so it never wraps and an
  unbounded integer holds it. \<open>Next\<close> returns its three results together with the
  iterator as the call leaves it.
\<close>

record K2_MapIterator =
  K2_itr_n :: K2
  K2_itr_idx :: int

record T2_MapIterator =
  T2_itr_n :: T2
  T2_itr_idx :: int

type_synonym entry = "gendemo_Node option \<times> gendemo_Node option \<times> error option"

definition K2_MapIterator_new :: "K2 \<Rightarrow> K2_MapIterator" where
  "K2_MapIterator_new n = \<lparr>K2_itr_n = n, K2_itr_idx = 0\<rparr>"

definition K2_MapIterator_Next :: "K2_MapIterator \<Rightarrow> entry outcome \<times> K2_MapIterator" where
  "K2_MapIterator_Next itr =
     (if K2_itr_idx itr \<ge> 2 then (Returns (None, None, Some ErrIteratorOverread), itr)
      else if K2_itr_idx itr = 0 then
        (Returns (Some (plainString ''u''), Some (plainString (K2_u (K2_itr_n itr))), None),
         itr\<lparr>K2_itr_idx := K2_itr_idx itr + 1\<rparr>)
      else if K2_itr_idx itr = 1 then
        (Returns (Some (plainString ''i''), Some (plainString (K2_i (K2_itr_n itr))), None),
         itr\<lparr>K2_itr_idx := K2_itr_idx itr + 1\<rparr>)
      else (Panics ''unreachable'', itr))"

definition K2_MapIterator_Done :: "K2_MapIterator \<Rightarrow> bool" where
  "K2_MapIterator_Done itr = (K2_itr_idx itr \<ge> 2)"

definition T2_MapIterator_new :: "T2 \<Rightarrow> T2_MapIterator" where
  "T2_MapIterator_new n = \<lparr>T2_itr_n = n, T2_itr_idx = 0\<rparr>"

definition T2_MapIterator_Next :: "T2_MapIterator \<Rightarrow> entry outcome \<times> T2_MapIterator" where
  "T2_MapIterator_Next itr =
     (if T2_itr_idx itr \<ge> 4 then (Returns (None, None, Some ErrIteratorOverread), itr)
      else if T2_itr_idx itr = 0 then
        (Returns (Some (plainString ''a''), Some (plainInt (T2_a (T2_itr_n itr))), None),
         itr\<lparr>T2_itr_idx := T2_itr_idx itr + 1\<rparr>)
      else if T2_itr_idx itr = 1 then
        (Returns (Some (plainString ''b''), Some (plainInt (T2_b (T2_itr_n itr))), None),
         itr\<lparr>T2_itr_idx := T2_itr_idx itr + 1\<rparr>)
      else if T2_itr_idx itr = 2 then
        (Returns (Some (plainString ''c''), Some (plainInt (T2_c (T2_itr_n itr))), None),
         itr\<lparr>T2_itr_idx := T2_itr_idx itr + 1\<rparr>)
      else if T2_itr_idx itr = 3 then
        (Returns (Some (plainString ''d''), Some (plainInt (T2_d (T2_itr_n itr))), None),
         itr\<lparr>T2_itr_idx := T2_itr_idx itr + 1\<rparr>)
      else (Panics ''unreachable'', itr))"

definition T2_MapIterator_Done :: "T2_MapIterator \<Rightarrow> bool" where
  "T2_MapIterator_Done itr = (T2_itr_idx itr \<ge> 4)"

text \<open>
  A caller that calls \<open>Next\<close> \<open>k\<close> times in a row on one iterator: the results in call
  order and the iterator afterwards. A panic ends the sequence of calls.
\<close>

fun K2_Next_times :: "nat \<Rightarrow> K2_MapIterator \<Rightarrow> entry outcome list \<times> K2_MapIterator" where
  "K2_Next_times 0 itr = ([], itr)"
| "K2_Next_times (Suc k) itr =
     (case K2_MapIterator_Next itr of
        (Panics m, itr') \<Rightarrow> ([Panics m], itr')
      | (Returns r, itr') \<Rightarrow>
          (case K2_Next_times k itr' of (rs, itr'') \<Rightarrow> (Returns r # rs, itr'')))"

fun T2_Next_times :: "nat \<Rightarrow> T2_MapIterator \<Rightarrow> entry outcome list \<times> T2_MapIterator" where
  "T2_Next_times 0 itr = ([], itr)"
| "T2_Next_times (Suc k) itr =
     (case T2_MapIterator_Next itr of
        (Panics m, itr') \<Rightarrow> ([Panics m], itr')
      | (Returns r, itr') \<Rightarrow>
          (case T2_Next_times k itr' of (rs, itr'') \<Rightarrow> (Returns r # rs, itr'')))"

abbreviation Overread :: "entry outcome" where
  "Overread \<equiv> Returns (None, None, Some ErrIteratorOverread)"

subsection \<open>The map assembler of K2\<close>

text \<open>
  The states of the map assembler: in the source an enumeration of five named constants
  over \<^verbatim>\<open>uint8\<close>.
\<close>

datatype maState =
    maState_initial | maState_midKey | maState_expectValue | maState_midValue
  | maState_finished

text \<open>
  The assembler: the node under construction behind the pointer \<open>w\<close> (\<open>None\<close> for a
  \<^verbatim>\<open>nil\<close> pointer), the state of the state machine, and one flag per field.
  Each operation returns its outcome together with the assembler as the call leaves it,
  so that what a panicking call has already written stays visible.
\<close>

record K2_Assembler =
  K2_asm_w :: "K2 option"
  K2_asm_state :: maState
  isset_u :: bool
  isset_i :: bool

typedecl NodeAssembler

definition K2_Assembler_AssembleEntry ::
  "string \<Rightarrow> K2_Assembler \<Rightarrow> (NodeAssembler option \<times> error option) outcome \<times> K2_Assembler"
where
  "K2_Assembler_AssembleEntry k ma =
     (if K2_asm_state ma \<noteq> maState_initial then (Panics ''misuse'', ma)
      else
        let ma' = ma\<lparr>K2_asm_state := maState_midValue\<rparr> in
        if k = ''u'' then
          (if isset_u ma' then (Returns (None, Some (ErrRepeatedMapKey (plainString ''u''))), ma')
           else (Panics ''todo'', ma'))
        else if k = ''i'' then (Panics ''todo'', ma')
        else (Panics ''invalid field key'', ma'))"

definition K2_Assembler_AssembleKey ::
  "K2_Assembler \<Rightarrow> NodeAssembler option outcome \<times> K2_Assembler"
where
  "K2_Assembler_AssembleKey ma =
     (if K2_asm_state ma \<noteq> maState_initial then (Panics ''misuse'', ma)
      else (Panics ''todo'', ma\<lparr>K2_asm_state := maState_midKey\<rparr>))"

definition K2_Assembler_AssembleValue ::
  "K2_Assembler \<Rightarrow> NodeAssembler option outcome \<times> K2_Assembler"
where
  "K2_Assembler_AssembleValue ma =
     (if K2_asm_state ma \<noteq> maState_expectValue then (Panics ''misuse'', ma)
      else (Panics ''todo'', ma\<lparr>K2_asm_state := maState_midValue\<rparr>))"

definition K2_Assembler_Finish :: "K2_Assembler \<Rightarrow> error option outcome \<times> K2_Assembler" where
  "K2_Assembler_Finish ma =
     (if K2_asm_state ma \<noteq> maState_initial then (Panics ''misuse'', ma)
      else (Returns None, ma\<lparr>K2_asm_state := maState_finished\<rparr>))"

text \<open>What a caller sees when a call hands back an error value.\<close>

fun returns_error :: "error option outcome \<Rightarrow> bool" where
  "returns_error (Returns (Some _)) = True"
| "returns_error _ = False"

section \<open>The selector ExploreIndex\<close>

text \<open>
  The node as package selector uses it: an interface value, given by what its methods
  \<open>ReprKind\<close>, \<open>TraverseField\<close> and \<open>AsInt\<close> return. The methods of the node at hand are
  taken to return; a method result pairs the value (\<open>None\<close> for \<^verbatim>\<open>nil\<close>) with the
  error.
\<close>

datatype Node =
  Node (Node_ReprKind: ReprKind)
       (Node_TraverseField: "string \<Rightarrow> Node option \<times> error option")
       (Node_AsInt: "int \<times> error option")

text \<open>
  Modelled from the spec: the path segment type is declared in package selector outside
  the files at hand. The spec gives it as a tagged union of an integer index and a string
  key; \<open>Index\<close> of an integer segment is that integer, \<open>Index\<close> of a string segment is
  the conversion of the string, which fails when the string is no integer. The conversion
  itself (the standard library's \<^verbatim>\<open>Atoi\<close>) is a parameter.
\<close>

datatype PathSegment = PathSegmentInt int | PathSegmentString string

fun PathSegment_Index :: "(string \<Rightarrow> int \<times> error option) \<Rightarrow> PathSegment \<Rightarrow> int \<times> error option" where
  "PathSegment_Index Atoi (PathSegmentInt i) = (i, None)"
| "PathSegment_Index Atoi (PathSegmentString s) = Atoi s"

text \<open>
  A selector is an interface value: an \<open>ExploreIndex\<close>, or a selector of another
  implementation, kept opaque in \<open>'o\<close>. The field \<open>next\<close> may hold \<^verbatim>\<open>nil\<close>.
\<close>

datatype 'o Selector = Selector_ExploreIndex "'o ExploreIndex" | Selector_Other 'o
and 'o ExploreIndex =
  ExploreIndex (ExploreIndex_next: "'o Selector option") (ExploreIndex_interest: "PathSegment list")

definition ExploreIndex_Interests :: "'o ExploreIndex \<Rightarrow> PathSegment list" where
  "ExploreIndex_Interests s = ExploreIndex_interest s"

text \<open>
  \<open>Explore\<close> reads \<^verbatim>\<open>s.interest[0]\<close> after the kind test and after \<^verbatim>\<open>p.Index()\<close>;
  on an empty slice that read panics.
\<close>

definition ExploreIndex_Explore ::
  "(string \<Rightarrow> int \<times> error option) \<Rightarrow> 'o ExploreIndex \<Rightarrow> Node \<Rightarrow> PathSegment
     \<Rightarrow> 'o Selector option outcome"
where
  "ExploreIndex_Explore Atoi s n p =
     (if Node_ReprKind n \<noteq> ReprKind_List then Returns None
      else
        case PathSegment_Index Atoi p of (expectedIndex, expectedErr) \<Rightarrow>
        (case ExploreIndex_interest s of
           [] \<Rightarrow> Panics ''runtime error: index out of range [0] with length 0''
         | seg # _ \<Rightarrow>
             (case PathSegment_Index Atoi seg of (actualIndex, actualErr) \<Rightarrow>
                if expectedErr \<noteq> None \<or> actualErr \<noteq> None \<or> expectedIndex \<noteq> actualIndex
                then Returns None
                else Returns (ExploreIndex_next s))))"

definition ExploreIndex_Decide :: "'o ExploreIndex \<Rightarrow> Node \<Rightarrow> bool" where
  "ExploreIndex_Decide s n = False"

text \<open>
  \<open>ParseExploreIndex\<close>. The two field keys and the general selector parser
  \<open>ParseSelector\<close> are declared in package selector outside the files at hand and are
  parameters; \<open>ParseSelector\<close> may return or panic. Calling \<open>AsInt\<close> on a \<^verbatim>\<open>nil\<close>
  node that came without an error panics.
\<close>

definition ParseExploreIndex ::
  "string \<Rightarrow> string \<Rightarrow> (Node option \<Rightarrow> ('o Selector option \<times> error option) outcome) \<Rightarrow> Node
     \<Rightarrow> ('o Selector option \<times> error option) outcome"
where
  "ParseExploreIndex indexKey nextSelectorKey ParseSelector n =
     (if Node_ReprKind n \<noteq> ReprKind_Map then
        Returns (None, Some (Errorf ''selector spec parse rejected: selector body must be a map''))
      else
        case Node_TraverseField n indexKey of
          (_, Some err) \<Rightarrow>
            Returns (None, Some (Errorf
              ''selector spec parse rejected: index field must be present in ExploreIndex selector''))
        | (None, None) \<Rightarrow>
            Panics ''runtime error: invalid memory address or nil pointer dereference''
        | (Some indexNode, None) \<Rightarrow>
            (case Node_AsInt indexNode of
               (_, Some err) \<Rightarrow>
                 Returns (None, Some (Errorf
                   ''selector spec parse rejected: index field must be a number in ExploreIndex selector''))
             | (indexValue, None) \<Rightarrow>
                 (case Node_TraverseField n nextSelectorKey of
                    (_, Some err) \<Rightarrow>
                      Returns (None, Some (Errorf
                        ''selector spec parse rejected: next field must be present in ExploreIndex selector''))
                  | (next, None) \<Rightarrow>
                      (case ParseSelector next of
                         Panics m \<Rightarrow> Panics m
                       | Returns (_, Some err) \<Rightarrow> Returns (None, Some err)
                       | Returns (selector, None) \<Rightarrow>
                           Returns (Some (Selector_ExploreIndex
                             (ExploreIndex selector [PathSegmentInt indexValue])), None)))))"

subsection \<open>Sample nodes and a sample selector parser\<close>

text \<open>
  Concrete implementations of the node interface, for evaluating the parser and the
  selector on inputs: an integer, a string, a list, and a map given by its entries. An
  accessor of the wrong kind gives a wrong-kind error, an absent key an error.
\<close>

definition int_node :: "int \<Rightarrow> Node" where
  "int_node v =
     Node ReprKind_Int
       (\<lambda>k. (None, Some (ErrWrongKind ''int'' ''TraverseField'' [ReprKind_Map] ReprKind_Int)))
       (v, None)"

definition string_node :: "string \<Rightarrow> Node" where
  "string_node v =
     Node ReprKind_String
       (\<lambda>k. (None, Some (ErrWrongKind ''string'' ''TraverseField'' [ReprKind_Map] ReprKind_String)))
       (0, Some (ErrWrongKind ''string'' ''AsInt'' ReprKindSet_JustInt ReprKind_String))"

definition list_node :: Node where
  "list_node =
     Node ReprKind_List
       (\<lambda>k. (None, Some (ErrWrongKind ''list'' ''TraverseField'' [ReprKind_Map] ReprKind_List)))
       (0, Some (ErrWrongKind ''list'' ''AsInt'' ReprKindSet_JustInt ReprKind_List))"

definition map_node :: "(string \<times> Node) list \<Rightarrow> Node" where
  "map_node kvs =
     Node ReprKind_Map
       (\<lambda>k. case map_of kvs k of
               None \<Rightarrow> (None, Some (Errorf ''no such field''))
             | Some v \<Rightarrow> (Some v, None))
       (0, Some (ErrWrongKind ''map'' ''AsInt'' ReprKindSet_JustInt ReprKind_Map))"

text \<open>
  A stand-in for the general selector parser: it accepts any map as a selector of
  another implementation and rejects everything else.
\<close>

definition sample_ParseSelector ::
  "Node option \<Rightarrow> (unit Selector option \<times> error option) outcome"
where
  "sample_ParseSelector x =
     (case x of
        None \<Rightarrow> Panics ''runtime error: invalid memory address or nil pointer dereference''
      | Some n \<Rightarrow>
          if Node_ReprKind n = ReprKind_Map then Returns (Some (Selector_Other ()), None)
          else Returns (None, Some (Errorf ''selector spec parse rejected: selector must be a map'')))"

text \<open>A stand-in for the string-to-integer conversion that knows one numeral.\<close>

definition sample_Atoi :: "string \<Rightarrow> int \<times> error option" where
  "sample_Atoi s = (if s = ''2'' then (2, None) else (0, Some (Errorf ''invalid syntax'')))"

section \<open>Iteration\<close>

lemma K2_Next_exhausted:
  "K2_MapIterator_Done itr \<Longrightarrow> K2_MapIterator_Next itr = (Overread, itr)"
  by (simp add: K2_MapIterator_Done_def K2_MapIterator_Next_def)

lemma T2_Next_exhausted:
  "T2_MapIterator_Done itr \<Longrightarrow> T2_MapIterator_Next itr = (Overread, itr)"
  by (simp add: T2_MapIterator_Done_def T2_MapIterator_Next_def)

lemma K2_Next_times_exhausted:
  "K2_MapIterator_Done itr \<Longrightarrow> K2_Next_times k itr = (replicate k Overread, itr)"
  by (induction k) (simp_all add: K2_Next_exhausted)

lemma T2_Next_times_exhausted:
  "T2_MapIterator_Done itr \<Longrightarrow> T2_Next_times k itr = (replicate k Overread, itr)"
  by (induction k) (simp_all add: T2_Next_exhausted)

lemma K2_Next_times_fresh:
  "fst (K2_Next_times k (K2_MapIterator_new n)) =
     take k [Returns (Some (plainString ''u''), Some (plainString (K2_u n)), None),
             Returns (Some (plainString ''i''), Some (plainString (K2_i n)), None)]
     @ replicate (k - 2) Overread"
proof (cases k)
  case 0
  then show ?thesis by simp
next
  case (Suc k1)
  show ?thesis
  proof (cases k1)
    case 0
    with Suc show ?thesis
      by (simp add: K2_MapIterator_new_def K2_MapIterator_Next_def)
  next
    case (Suc k2)
    have "K2_MapIterator_Done \<lparr>K2_itr_n = n, K2_itr_idx = 2\<rparr>"
      by (simp add: K2_MapIterator_Done_def)
    then have "K2_Next_times k2 \<lparr>K2_itr_n = n, K2_itr_idx = 2\<rparr>
        = (replicate k2 Overread, \<lparr>K2_itr_n = n, K2_itr_idx = 2\<rparr>)"
      by (rule K2_Next_times_exhausted)
    with Suc \<open>k = Suc k1\<close> show ?thesis
      by (simp add: K2_MapIterator_new_def K2_MapIterator_Next_def)
  qed
qed

lemma T2_Next_times_fresh:
  "fst (T2_Next_times k (T2_MapIterator_new n)) =
     take k [Returns (Some (plainString ''a''), Some (plainInt (T2_a n)), None),
             Returns (Some (plainString ''b''), Some (plainInt (T2_b n)), None),
             Returns (Some (plainString ''c''), Some (plainInt (T2_c n)), None),
             Returns (Some (plainString ''d''), Some (plainInt (T2_d n)), None)]
     @ replicate (k - 4) Overread"
proof -
  have done4: "T2_Next_times m \<lparr>T2_itr_n = n, T2_itr_idx = 4\<rparr>
        = (replicate m Overread, \<lparr>T2_itr_n = n, T2_itr_idx = 4\<rparr>)" for m
    by (rule T2_Next_times_exhausted) (simp add: T2_MapIterator_Done_def)
  consider "k = 0" | "k = 1" | "k = 2" | "k = 3" | m where "k = Suc (Suc (Suc (Suc m)))"
    by (metis One_nat_def Suc_1 not0_implies_Suc numeral_3_eq_3)
  then show ?thesis
  proof cases
    case 1 then show ?thesis by simp
  next
    case 2 then show ?thesis
      by (simp add: T2_MapIterator_new_def T2_MapIterator_Next_def)
  next
    case 3 then show ?thesis
      by (simp add: T2_MapIterator_new_def T2_MapIterator_Next_def numeral_2_eq_2)
  next
    case 4 then show ?thesis
      by (simp add: T2_MapIterator_new_def T2_MapIterator_Next_def numeral_3_eq_3)
  next
    case 5 then show ?thesis
      by (simp add: T2_MapIterator_new_def T2_MapIterator_Next_def done4)
  qed
qed

lemma nth_take_pad:
  "j < k \<Longrightarrow> (take k es @ replicate (k - length es) x) ! j = (if j < length es then es ! j else x)"
  by (auto simp: nth_append)

lemma K2_nth_result:
  assumes "j < k"
  shows "fst (K2_Next_times k (K2_MapIterator_new n)) ! j =
     (if j < 2 then [Returns (Some (plainString ''u''), Some (plainString (K2_u n)), None),
             Returns (Some (plainString ''i''), Some (plainString (K2_i n)), None)] ! j else Overread)"
  using nth_take_pad [OF assms, of "[Returns (Some (plainString ''u''), Some (plainString (K2_u n)), None),
             Returns (Some (plainString ''i''), Some (plainString (K2_i n)), None)]" Overread]
  by (simp add: K2_Next_times_fresh numeral_2_eq_2)

lemma T2_nth_result:
  assumes "j < k"
  shows "fst (T2_Next_times k (T2_MapIterator_new n)) ! j =
     (if j < 4 then [Returns (Some (plainString ''a''), Some (plainInt (T2_a n)), None),
             Returns (Some (plainString ''b''), Some (plainInt (T2_b n)), None),
             Returns (Some (plainString ''c''), Some (plainInt (T2_c n)), None),
             Returns (Some (plainString ''d''), Some (plainInt (T2_d n)), None)] ! j else Overread)"
  using nth_take_pad [OF assms, of "[Returns (Some (plainString ''a''), Some (plainInt (T2_a n)), None),
             Returns (Some (plainString ''b''), Some (plainInt (T2_b n)), None),
             Returns (Some (plainString ''c''), Some (plainInt (T2_c n)), None),
             Returns (Some (plainString ''d''), Some (plainInt (T2_d n)), None)]" Overread]
  by (simp add: T2_Next_times_fresh eval_nat_numeral)

text \<open>
  C1. Calling \<open>Next\<close> on a fresh iterator of a map node succeeds exactly \<open>Length()\<close> times
  and the call after that is an overread. Evaluated on the code: both K2 and T2 are of
  map kind and report the length \<open>-1\<close>, while a fresh iterator yields two entries (K2)
  or four (T2) before the overread.
\<close>

theorem Length_disagrees_with_iteration:
  "K2_ReprKind n = ReprKind_Map \<and> K2_Length n = - 1 \<and>
   fst (K2_Next_times 3 (K2_MapIterator_new n)) =
     [Returns (Some (plainString ''u''), Some (plainString (K2_u n)), None),
      Returns (Some (plainString ''i''), Some (plainString (K2_i n)), None),
      Overread] \<and>
   T2_ReprKind t = ReprKind_Map \<and> T2_Length t = - 1 \<and>
   fst (T2_Next_times 5 (T2_MapIterator_new t)) =
     [Returns (Some (plainString ''a''), Some (plainInt (T2_a t)), None),
      Returns (Some (plainString ''b''), Some (plainInt (T2_b t)), None),
      Returns (Some (plainString ''c''), Some (plainInt (T2_c t)), None),
      Returns (Some (plainString ''d''), Some (plainInt (T2_d t)), None),
      Overread]"
  by (simp add: K2_ReprKind_def K2_Length_def T2_ReprKind_def T2_Length_def
      K2_Next_times_fresh T2_Next_times_fresh)

text \<open>
  C8. Two iterators made independently from the same K2 or T2 node agree on their
  \<open>n\<close>-th result for every \<open>n\<close>, however many calls each of them has seen: the \<open>j\<close>-th
  result among \<open>k1\<close> calls on one is the \<open>j\<close>-th result among \<open>k2\<close> calls on the other.
  The order depends on the node alone: \<open>u\<close> then \<open>i\<close> for K2; \<open>a\<close>, \<open>b\<close>, \<open>c\<close>, \<open>d\<close> for T2.
\<close>

theorem iteration_order_stable:
  "j < k1 \<and> j < k2 \<longrightarrow>
     fst (K2_Next_times k1 (K2_MapIterator_new n)) ! j
       = fst (K2_Next_times k2 (K2_MapIterator_new n)) ! j \<and>
     fst (T2_Next_times k1 (T2_MapIterator_new t)) ! j
       = fst (T2_Next_times k2 (T2_MapIterator_new t)) ! j \<and>
     fst (K2_Next_times 2 (K2_MapIterator_new n)) =
       [Returns (Some (plainString ''u''), Some (plainString (K2_u n)), None),
        Returns (Some (plainString ''i''), Some (plainString (K2_i n)), None)] \<and>
     fst (T2_Next_times 4 (T2_MapIterator_new t)) =
       [Returns (Some (plainString ''a''), Some (plainInt (T2_a t)), None),
        Returns (Some (plainString ''b''), Some (plainInt (T2_b t)), None),
        Returns (Some (plainString ''c''), Some (plainInt (T2_c t)), None),
        Returns (Some (plainString ''d''), Some (plainInt (T2_d t)), None)]"
proof (intro impI conjI)
  assume b: "j < k1 \<and> j < k2"
  from b show "fst (K2_Next_times k1 (K2_MapIterator_new n)) ! j
       = fst (K2_Next_times k2 (K2_MapIterator_new n)) ! j"
    by (simp only: K2_nth_result)
  from b show "fst (T2_Next_times k1 (T2_MapIterator_new t)) ! j
       = fst (T2_Next_times k2 (T2_MapIterator_new t)) ! j"
    by (simp only: T2_nth_result)
  show "fst (K2_Next_times 2 (K2_MapIterator_new n)) =
       [Returns (Some (plainString ''u''), Some (plainString (K2_u n)), None),
        Returns (Some (plainString ''i''), Some (plainString (K2_i n)), None)]"
    by (simp add: K2_Next_times_fresh)
  show "fst (T2_Next_times 4 (T2_MapIterator_new t)) =
       [Returns (Some (plainString ''a''), Some (plainInt (T2_a t)), None),
        Returns (Some (plainString ''b''), Some (plainInt (T2_b t)), None),
        Returns (Some (plainString ''c''), Some (plainInt (T2_c t)), None),
        Returns (Some (plainString ''d''), Some (plainInt (T2_d t)), None)]"
    by (simp add: T2_Next_times_fresh)
qed

theorem iteration_order_stable_witness:
  "((1::nat) < 2 \<and> (1::nat) < 3) \<and>
   fst (K2_Next_times 2 (K2_MapIterator_new \<lparr>K2_u = ''x'', K2_i = ''y''\<rparr>)) ! 1
     = fst (K2_Next_times 3 (K2_MapIterator_new \<lparr>K2_u = ''x'', K2_i = ''y''\<rparr>)) ! 1 \<and>
   fst (T2_Next_times 2 (T2_MapIterator_new \<lparr>T2_a = 1, T2_b = 2, T2_c = 3, T2_d = 4\<rparr>)) ! 1
     = fst (T2_Next_times 3 (T2_MapIterator_new \<lparr>T2_a = 1, T2_b = 2, T2_c = 3, T2_d = 4\<rparr>)) ! 1 \<and>
   fst (K2_Next_times 2 (K2_MapIterator_new \<lparr>K2_u = ''x'', K2_i = ''y''\<rparr>)) =
       [Returns (Some (plainString ''u''), Some (plainString ''x''), None),
        Returns (Some (plainString ''i''), Some (plainString ''y''), None)] \<and>
   fst (T2_Next_times 4 (T2_MapIterator_new \<lparr>T2_a = 1, T2_b = 2, T2_c = 3, T2_d = 4\<rparr>)) =
       [Returns (Some (plainString ''a''), Some (plainInt 1), None),
        Returns (Some (plainString ''b''), Some (plainInt 2), None),
        Returns (Some (plainString ''c''), Some (plainInt 3), None),
        Returns (Some (plainString ''d''), Some (plainInt 4), None)]"
proof -
  have h: "(1::nat) < 2 \<and> (1::nat) < 3" by simp
  note w = iteration_order_stable [rule_format, OF h, of "\<lparr>K2_u = ''x'', K2_i = ''y''\<rparr>"
      "\<lparr>T2_a = 1, T2_b = 2, T2_c = 3, T2_d = 4\<rparr>"]
  from w have k: "fst (K2_Next_times 2 (K2_MapIterator_new \<lparr>K2_u = ''x'', K2_i = ''y''\<rparr>)) =
       [Returns (Some (plainString ''u''), Some (plainString ''x''), None),
        Returns (Some (plainString ''i''), Some (plainString ''y''), None)]"
    by simp
  from w have t: "fst (T2_Next_times 4 (T2_MapIterator_new \<lparr>T2_a = 1, T2_b = 2, T2_c = 3, T2_d = 4\<rparr>)) =
       [Returns (Some (plainString ''a''), Some (plainInt 1), None),
        Returns (Some (plainString ''b''), Some (plainInt 2), None),
        Returns (Some (plainString ''c''), Some (plainInt 3), None),
        Returns (Some (plainString ''d''), Some (plainInt 4), None)]"
    by simp
  from h w k t show ?thesis by blast
qed

text \<open>
  C10. On an exhausted K2 or T2 iterator \<open>Next\<close> returns the overread error with
  \<^verbatim>\<open>nil\<close> key and value and leaves the iterator as it was; so any number of further
  calls all return the overread error and \<open>Done\<close> stays true.
\<close>

theorem overread_repeatable:
  "(K2_MapIterator_Done itr \<longrightarrow>
      K2_MapIterator_Next itr = (Overread, itr) \<and>
      K2_Next_times k itr = (replicate k Overread, itr) \<and>
      K2_MapIterator_Done (snd (K2_Next_times k itr))) \<and>
   (T2_MapIterator_Done titr \<longrightarrow>
      T2_MapIterator_Next titr = (Overread, titr) \<and>
      T2_Next_times k titr = (replicate k Overread, titr) \<and>
      T2_MapIterator_Done (snd (T2_Next_times k titr)))"
  by (simp add: K2_Next_exhausted K2_Next_times_exhausted T2_Next_exhausted
      T2_Next_times_exhausted)

theorem overread_repeatable_witness:
  "K2_MapIterator_Done \<lparr>K2_itr_n = \<lparr>K2_u = ''x'', K2_i = ''y''\<rparr>, K2_itr_idx = 2\<rparr> \<and>
   K2_Next_times 3 \<lparr>K2_itr_n = \<lparr>K2_u = ''x'', K2_i = ''y''\<rparr>, K2_itr_idx = 2\<rparr> =
     ([Overread, Overread, Overread],
      \<lparr>K2_itr_n = \<lparr>K2_u = ''x'', K2_i = ''y''\<rparr>, K2_itr_idx = 2\<rparr>) \<and>
   T2_MapIterator_Done \<lparr>T2_itr_n = \<lparr>T2_a = 1, T2_b = 2, T2_c = 3, T2_d = 4\<rparr>, T2_itr_idx = 4\<rparr> \<and>
   T2_Next_times 3 \<lparr>T2_itr_n = \<lparr>T2_a = 1, T2_b = 2, T2_c = 3, T2_d = 4\<rparr>, T2_itr_idx = 4\<rparr> =
     ([Overread, Overread, Overread],
      \<lparr>T2_itr_n = \<lparr>T2_a = 1, T2_b = 2, T2_c = 3, T2_d = 4\<rparr>, T2_itr_idx = 4\<rparr>)"
proof -
  have k: "K2_MapIterator_Done \<lparr>K2_itr_n = \<lparr>K2_u = ''x'', K2_i = ''y''\<rparr>, K2_itr_idx = 2\<rparr>"
    by (simp add: K2_MapIterator_Done_def)
  have t: "T2_MapIterator_Done
      \<lparr>T2_itr_n = \<lparr>T2_a = 1, T2_b = 2, T2_c = 3, T2_d = 4\<rparr>, T2_itr_idx = 4\<rparr>"
    by (simp add: T2_MapIterator_Done_def)
  from k t
    overread_repeatable [of "\<lparr>K2_itr_n = \<lparr>K2_u = ''x'', K2_i = ''y''\<rparr>, K2_itr_idx = 2\<rparr>" 3
      "\<lparr>T2_itr_n = \<lparr>T2_a = 1, T2_b = 2, T2_c = 3, T2_d = 4\<rparr>, T2_itr_idx = 4\<rparr>"]
  show ?thesis by (simp add: numeral_eq_Suc)
qed

section \<open>Scalar accessors\<close>

text \<open>
  Five of the six scalar accessors of K2 and of T2 fail with a wrong-kind error that names
  the kind the method needs and the kind of the node.
\<close>

lemma K2_other_accessors:
  "snd (K2_AsBool n) = Some (ErrWrongKind ''K2'' ''AsBool'' [ReprKind_Bool] (K2_ReprKind n)) \<and>
   snd (K2_AsFloat n) = Some (ErrWrongKind ''K2'' ''AsFloat'' [ReprKind_Float] (K2_ReprKind n)) \<and>
   snd (K2_AsString n) = Some (ErrWrongKind ''K2'' ''AsString'' [ReprKind_String] (K2_ReprKind n)) \<and>
   snd (K2_AsBytes n) = Some (ErrWrongKind ''K2'' ''AsBytes'' [ReprKind_Bytes] (K2_ReprKind n)) \<and>
   snd (K2_AsLink n) = Some (ErrWrongKind ''K2'' ''AsLink'' [ReprKind_Link] (K2_ReprKind n))"
  by (simp add: K2_AsBool_def K2_AsFloat_def K2_AsString_def K2_AsBytes_def K2_AsLink_def
      K2_ReprKind_def ReprKindSet_JustBool_def ReprKindSet_JustFloat_def
      ReprKindSet_JustString_def ReprKindSet_JustBytes_def ReprKindSet_JustLink_def)

lemma T2_other_accessors:
  "snd (T2_AsBool n) = Some (ErrWrongKind ''T2'' ''AsBool'' [ReprKind_Bool] (T2_ReprKind n)) \<and>
   snd (T2_AsFloat n) = Some (ErrWrongKind ''T2'' ''AsFloat'' [ReprKind_Float] (T2_ReprKind n)) \<and>
   snd (T2_AsString n) = Some (ErrWrongKind ''T2'' ''AsString'' [ReprKind_String] (T2_ReprKind n)) \<and>
   snd (T2_AsBytes n) = Some (ErrWrongKind ''T2'' ''AsBytes'' [ReprKind_Bytes] (T2_ReprKind n)) \<and>
   snd (T2_AsLink n) = Some (ErrWrongKind ''T2'' ''AsLink'' [ReprKind_Link] (T2_ReprKind n))"
  by (simp add: T2_AsBool_def T2_AsFloat_def T2_AsString_def T2_AsBytes_def T2_AsLink_def
      T2_ReprKind_def ReprKindSet_JustBool_def ReprKindSet_JustFloat_def
      ReprKindSet_JustString_def ReprKindSet_JustBytes_def ReprKindSet_JustLink_def)

text \<open>
  C2. A scalar accessor that does not match the kind of the node fails with a wrong-kind
  error carrying the kind set the method needs and the actual kind; \<open>AsInt\<close> on a map
  node is to carry the set holding int. Evaluated on the code: \<open>AsInt\<close> of K2 and of T2
  fails with a wrong-kind error whose required set is the one holding float.
\<close>

theorem AsInt_requires_float:
  "K2_AsInt n = (0, Some (ErrWrongKind ''K2'' ''AsInt'' [ReprKind_Float] ReprKind_Map)) \<and>
   T2_AsInt t = (0, Some (ErrWrongKind ''T2'' ''AsInt'' [ReprKind_Float] ReprKind_Map)) \<and>
   map_option AppropriateKind (snd (K2_AsInt n)) \<noteq> Some ReprKindSet_JustInt \<and>
   map_option AppropriateKind (snd (T2_AsInt t)) \<noteq> Some ReprKindSet_JustInt"
  by (simp add: K2_AsInt_def T2_AsInt_def ReprKindSet_JustFloat_def ReprKindSet_JustInt_def)

section \<open>The assembler state machine\<close>

text \<open>
  C3, as stated: an assembler operation called in a state where it is illegal hands an
  error value back to its caller. \<open>Finish\<close> on an assembler that is in the middle of a
  value does not return at all: it panics.
\<close>

theorem Finish_midValue_counterexample:
  "K2_Assembler_Finish
     \<lparr>K2_asm_w = Some \<lparr>K2_u = ''x'', K2_i = ''''\<rparr>, K2_asm_state = maState_midValue,
      isset_u = True, isset_i = False\<rparr>
   = (Panics ''misuse'',
      \<lparr>K2_asm_w = Some \<lparr>K2_u = ''x'', K2_i = ''''\<rparr>, K2_asm_state = maState_midValue,
       isset_u = True, isset_i = False\<rparr>) \<and>
   \<not> returns_error (fst (K2_Assembler_Finish
     \<lparr>K2_asm_w = Some \<lparr>K2_u = ''x'', K2_i = ''''\<rparr>, K2_asm_state = maState_midValue,
      isset_u = True, isset_i = False\<rparr>))"
  by (simp add: K2_Assembler_Finish_def)

text \<open>
  C3, amended. On the K2 assembler, \<open>AssembleEntry\<close>, \<open>AssembleKey\<close> and \<open>Finish\<close>
  called in a state other than initial, and \<open>AssembleValue\<close> called in a state other than
  expect-value, panic with the message \<open>misuse\<close> and leave the assembler as it was:
  state, flags and the node under construction. So \<open>Finish\<close> from a state other than
  initial neither reports success nor moves the assembler to finished.
\<close>

theorem misuse_panics:
  "(K2_asm_state ma \<noteq> maState_initial \<longrightarrow>
      K2_Assembler_AssembleEntry k ma = (Panics ''misuse'', ma) \<and>
      K2_Assembler_AssembleKey ma = (Panics ''misuse'', ma) \<and>
      K2_Assembler_Finish ma = (Panics ''misuse'', ma)) \<and>
   (K2_asm_state ma \<noteq> maState_expectValue \<longrightarrow>
      K2_Assembler_AssembleValue ma = (Panics ''misuse'', ma))"
  by (simp add: K2_Assembler_AssembleEntry_def K2_Assembler_AssembleKey_def
      K2_Assembler_Finish_def K2_Assembler_AssembleValue_def)

theorem misuse_panics_witness:
  "K2_asm_state \<lparr>K2_asm_w = Some \<lparr>K2_u = ''x'', K2_i = ''''\<rparr>, K2_asm_state = maState_midValue,
      isset_u = True, isset_i = False\<rparr> \<noteq> maState_initial \<and>
   K2_asm_state \<lparr>K2_asm_w = Some \<lparr>K2_u = ''x'', K2_i = ''''\<rparr>, K2_asm_state = maState_midValue,
      isset_u = True, isset_i = False\<rparr> \<noteq> maState_expectValue \<and>
   K2_Assembler_Finish
     \<lparr>K2_asm_w = Some \<lparr>K2_u = ''x'', K2_i = ''''\<rparr>, K2_asm_state = maState_midValue,
      isset_u = True, isset_i = False\<rparr>
   = (Panics ''misuse'',
      \<lparr>K2_asm_w = Some \<lparr>K2_u = ''x'', K2_i = ''''\<rparr>, K2_asm_state = maState_midValue,
       isset_u = True, isset_i = False\<rparr>) \<and>
   K2_Assembler_AssembleValue
     \<lparr>K2_asm_w = Some \<lparr>K2_u = ''x'', K2_i = ''''\<rparr>, K2_asm_state = maState_midValue,
      isset_u = True, isset_i = False\<rparr>
   = (Panics ''misuse'',
      \<lparr>K2_asm_w = Some \<lparr>K2_u = ''x'', K2_i = ''''\<rparr>, K2_asm_state = maState_midValue,
       isset_u = True, isset_i = False\<rparr>)"
  using misuse_panics [of "\<lparr>K2_asm_w = Some \<lparr>K2_u = ''x'', K2_i = ''''\<rparr>,
      K2_asm_state = maState_midValue, isset_u = True, isset_i = False\<rparr>" "''u''"]
  by simp

text \<open>
  C6. \<open>AssembleEntry\<close> with a key that is already assigned fails with the repeated-key
  error, for each of the keys \<open>u\<close> and \<open>i\<close>. Evaluated on the code with both fields
  marked as assigned: for \<open>u\<close> the call returns the repeated-key error and keeps the node
  and the flags; for \<open>i\<close> there is no such test and the call panics.
\<close>

theorem AssembleEntry_i_unchecked:
  "K2_Assembler_AssembleEntry ''u''
     \<lparr>K2_asm_w = Some \<lparr>K2_u = ''x'', K2_i = ''y''\<rparr>, K2_asm_state = maState_initial,
      isset_u = True, isset_i = True\<rparr>
   = (Returns (None, Some (ErrRepeatedMapKey (plainString ''u''))),
      \<lparr>K2_asm_w = Some \<lparr>K2_u = ''x'', K2_i = ''y''\<rparr>, K2_asm_state = maState_midValue,
       isset_u = True, isset_i = True\<rparr>) \<and>
   K2_Assembler_AssembleEntry ''i''
     \<lparr>K2_asm_w = Some \<lparr>K2_u = ''x'', K2_i = ''y''\<rparr>, K2_asm_state = maState_initial,
      isset_u = True, isset_i = True\<rparr>
   = (Panics ''todo'',
      \<lparr>K2_asm_w = Some \<lparr>K2_u = ''x'', K2_i = ''y''\<rparr>, K2_asm_state = maState_midValue,
       isset_u = True, isset_i = True\<rparr>)"
  by (simp add: K2_Assembler_AssembleEntry_def)

section \<open>Parsing and exploring with ExploreIndex\<close>

lemma ParseExploreIndex_not_map:
  "Node_ReprKind n \<noteq> ReprKind_Map \<Longrightarrow>
   ParseExploreIndex ik nk PS n =
     Returns (None, Some (Errorf ''selector spec parse rejected: selector body must be a map''))"
  by (simp add: ParseExploreIndex_def)

lemma ParseExploreIndex_index_missing:
  "Node_ReprKind n = ReprKind_Map \<Longrightarrow> snd (Node_TraverseField n ik) \<noteq> None \<Longrightarrow>
   ParseExploreIndex ik nk PS n =
     Returns (None, Some (Errorf
       ''selector spec parse rejected: index field must be present in ExploreIndex selector''))"
  by (cases "Node_TraverseField n ik") (auto simp: ParseExploreIndex_def split: option.splits)

lemma ParseExploreIndex_index_not_int:
  "Node_ReprKind n = ReprKind_Map \<Longrightarrow> Node_TraverseField n ik = (Some inode, None) \<Longrightarrow>
   snd (Node_AsInt inode) \<noteq> None \<Longrightarrow>
   ParseExploreIndex ik nk PS n =
     Returns (None, Some (Errorf
       ''selector spec parse rejected: index field must be a number in ExploreIndex selector''))"
  by (cases "Node_AsInt inode") (auto simp: ParseExploreIndex_def split: option.splits)

lemma ParseExploreIndex_next_missing:
  "Node_ReprKind n = ReprKind_Map \<Longrightarrow> Node_TraverseField n ik = (Some inode, None) \<Longrightarrow>
   snd (Node_AsInt inode) = None \<Longrightarrow> snd (Node_TraverseField n nk) \<noteq> None \<Longrightarrow>
   ParseExploreIndex ik nk PS n =
     Returns (None, Some (Errorf
       ''selector spec parse rejected: next field must be present in ExploreIndex selector''))"
  by (cases "Node_AsInt inode"; cases "Node_TraverseField n nk")
     (auto simp: ParseExploreIndex_def split: option.splits)

lemma ParseExploreIndex_next_fails:
  "Node_ReprKind n = ReprKind_Map \<Longrightarrow> Node_TraverseField n ik = (Some inode, None) \<Longrightarrow>
   snd (Node_AsInt inode) = None \<Longrightarrow> Node_TraverseField n nk = (nx, None) \<Longrightarrow>
   PS nx = Returns (sel, Some e) \<Longrightarrow>
   ParseExploreIndex ik nk PS n = Returns (None, Some e)"
  by (cases "Node_AsInt inode") (auto simp: ParseExploreIndex_def split: option.splits)

lemma ParseExploreIndex_error_nil:
  "ParseExploreIndex ik nk PS n = Returns (r, Some e) \<Longrightarrow> r = None"
  by (auto simp: ParseExploreIndex_def
      split: if_splits prod.splits option.splits outcome.splits)

lemma ParseExploreIndex_success:
  "ParseExploreIndex ik nk PS n = Returns (r, None) \<Longrightarrow>
   \<exists>nx iv inode. r = Some (Selector_ExploreIndex (ExploreIndex nx [PathSegmentInt iv])) \<and>
      Node_TraverseField n ik = (Some inode, None) \<and> Node_AsInt inode = (iv, None)"
  by (auto simp: ParseExploreIndex_def
      split: if_splits prod.splits option.splits outcome.splits)

lemma Explore_nonempty:
  "ExploreIndex_interest s = t # ts \<Longrightarrow>
   ExploreIndex_Explore Atoi s n p =
     Returns (if Node_ReprKind n = ReprKind_List \<and>
                 snd (PathSegment_Index Atoi p) = None \<and>
                 snd (PathSegment_Index Atoi t) = None \<and>
                 fst (PathSegment_Index Atoi p) = fst (PathSegment_Index Atoi t)
              then ExploreIndex_next s else None)"
  by (auto simp: ExploreIndex_Explore_def split: prod.splits list.splits)

lemma Explore_empty:
  "ExploreIndex_interest s = [] \<Longrightarrow> Node_ReprKind n = ReprKind_List \<Longrightarrow>
   ExploreIndex_Explore Atoi s n p = Panics ''runtime error: index out of range [0] with length 0''"
  by (auto simp: ExploreIndex_Explore_def split: prod.splits list.splits)

text \<open>
  C4. \<open>ParseExploreIndex\<close> rejects with a parse error naming the cause: a node that is
  not a map; a map whose index field is missing; an index field that is no integer; a
  missing next field. When the next field is there and the selector parser fails on it,
  that error is handed on as it is. Whenever an error is returned, the selector returned
  with it is \<^verbatim>\<open>nil\<close>.
\<close>

theorem ParseExploreIndex_rejects:
  "(Node_ReprKind n \<noteq> ReprKind_Map \<longrightarrow>
      ParseExploreIndex ik nk PS n =
        Returns (None, Some (Errorf ''selector spec parse rejected: selector body must be a map''))) \<and>
   (Node_ReprKind n = ReprKind_Map \<and> snd (Node_TraverseField n ik) \<noteq> None \<longrightarrow>
      ParseExploreIndex ik nk PS n =
        Returns (None, Some (Errorf
          ''selector spec parse rejected: index field must be present in ExploreIndex selector''))) \<and>
   (Node_ReprKind n = ReprKind_Map \<and> Node_TraverseField n ik = (Some inode, None) \<and>
    snd (Node_AsInt inode) \<noteq> None \<longrightarrow>
      ParseExploreIndex ik nk PS n =
        Returns (None, Some (Errorf
          ''selector spec parse rejected: index field must be a number in ExploreIndex selector''))) \<and>
   (Node_ReprKind n = ReprKind_Map \<and> Node_TraverseField n ik = (Some inode, None) \<and>
    snd (Node_AsInt inode) = None \<and> snd (Node_TraverseField n nk) \<noteq> None \<longrightarrow>
      ParseExploreIndex ik nk PS n =
        Returns (None, Some (Errorf
          ''selector spec parse rejected: next field must be present in ExploreIndex selector''))) \<and>
   (Node_ReprKind n = ReprKind_Map \<and> Node_TraverseField n ik = (Some inode, None) \<and>
    snd (Node_AsInt inode) = None \<and> Node_TraverseField n nk = (nx, None) \<and>
    PS nx = Returns (sel, Some e) \<longrightarrow>
      ParseExploreIndex ik nk PS n = Returns (None, Some e)) \<and>
   (ParseExploreIndex ik nk PS n = Returns (r, Some e') \<longrightarrow> r = None)"
  using ParseExploreIndex_not_map [of n ik nk PS]
    ParseExploreIndex_index_missing [of n ik nk PS]
    ParseExploreIndex_index_not_int [of n ik inode nk PS]
    ParseExploreIndex_next_missing [of n ik inode nk PS]
    ParseExploreIndex_next_fails [of n ik inode nk nx PS sel e]
    ParseExploreIndex_error_nil [of ik nk PS n r e']
  by blast

theorem ParseExploreIndex_rejects_witness:
  "Node_ReprKind (int_node 5) \<noteq> ReprKind_Map \<and>
   ParseExploreIndex ''i'' ''>'' sample_ParseSelector (int_node 5) =
     Returns (None, Some (Errorf ''selector spec parse rejected: selector body must be a map'')) \<and>
   snd (Node_TraverseField (map_node [(''>'', map_node [])]) ''i'') \<noteq> None \<and>
   ParseExploreIndex ''i'' ''>'' sample_ParseSelector (map_node [(''>'', map_node [])]) =
     Returns (None, Some (Errorf
       ''selector spec parse rejected: index field must be present in ExploreIndex selector'')) \<and>
   snd (Node_AsInt (string_node ''x'')) \<noteq> None \<and>
   ParseExploreIndex ''i'' ''>'' sample_ParseSelector
       (map_node [(''i'', string_node ''x''), (''>'', map_node [])]) =
     Returns (None, Some (Errorf
       ''selector spec parse rejected: index field must be a number in ExploreIndex selector'')) \<and>
   snd (Node_TraverseField (map_node [(''i'', int_node 2)]) ''>'') \<noteq> None \<and>
   ParseExploreIndex ''i'' ''>'' sample_ParseSelector (map_node [(''i'', int_node 2)]) =
     Returns (None, Some (Errorf
       ''selector spec parse rejected: next field must be present in ExploreIndex selector'')) \<and>
   sample_ParseSelector (Some (int_node 1)) =
     Returns (None, Some (Errorf ''selector spec parse rejected: selector must be a map'')) \<and>
   ParseExploreIndex ''i'' ''>'' sample_ParseSelector
       (map_node [(''i'', int_node 2), (''>'', int_node 1)]) =
     Returns (None, Some (Errorf ''selector spec parse rejected: selector must be a map''))"
proof -
  note defs = int_node_def string_node_def map_node_def sample_ParseSelector_def
  have a: "Node_ReprKind (int_node 5) \<noteq> ReprKind_Map \<and>
   ParseExploreIndex ''i'' ''>'' sample_ParseSelector (int_node 5) =
     Returns (None, Some (Errorf ''selector spec parse rejected: selector body must be a map''))"
    using ParseExploreIndex_rejects [where n = "int_node 5" and ik = "''i''" and nk = "''>''"
        and PS = sample_ParseSelector and inode = "int_node 2" and nx = None and sel = None
        and e = "Errorf ''''" and r = None and e' = "Errorf ''''"]
    by (simp add: defs)
  have b: "snd (Node_TraverseField (map_node [(''>'', map_node [])]) ''i'') \<noteq> None \<and>
   ParseExploreIndex ''i'' ''>'' sample_ParseSelector (map_node [(''>'', map_node [])]) =
     Returns (None, Some (Errorf
       ''selector spec parse rejected: index field must be present in ExploreIndex selector''))"
    using ParseExploreIndex_rejects [where n = "map_node [(''>'', map_node [])]"
        and ik = "''i''" and nk = "''>''"
        and PS = sample_ParseSelector and inode = "int_node 2" and nx = None and sel = None
        and e = "Errorf ''''" and r = None and e' = "Errorf ''''"]
    by (simp add: defs)
  have c: "snd (Node_AsInt (string_node ''x'')) \<noteq> None \<and>
   ParseExploreIndex ''i'' ''>'' sample_ParseSelector
       (map_node [(''i'', string_node ''x''), (''>'', map_node [])]) =
     Returns (None, Some (Errorf
       ''selector spec parse rejected: index field must be a number in ExploreIndex selector''))"
    using ParseExploreIndex_rejects
        [where n = "map_node [(''i'', string_node ''x''), (''>'', map_node [])]"
        and ik = "''i''" and nk = "''>''"
        and PS = sample_ParseSelector and inode = "string_node ''x''" and nx = None and sel = None
        and e = "Errorf ''''" and r = None and e' = "Errorf ''''"]
    by (simp add: defs)
  have d: "snd (Node_TraverseField (map_node [(''i'', int_node 2)]) ''>'') \<noteq> None \<and>
   ParseExploreIndex ''i'' ''>'' sample_ParseSelector (map_node [(''i'', int_node 2)]) =
     Returns (None, Some (Errorf
       ''selector spec parse rejected: next field must be present in ExploreIndex selector''))"
    using ParseExploreIndex_rejects [where n = "map_node [(''i'', int_node 2)]"
        and ik = "''i''" and nk = "''>''"
        and PS = sample_ParseSelector and inode = "int_node 2" and nx = None and sel = None
        and e = "Errorf ''''" and r = None and e' = "Errorf ''''"]
    by (simp add: defs)
  have e: "sample_ParseSelector (Some (int_node 1)) =
     Returns (None, Some (Errorf ''selector spec parse rejected: selector must be a map'')) \<and>
   ParseExploreIndex ''i'' ''>'' sample_ParseSelector
       (map_node [(''i'', int_node 2), (''>'', int_node 1)]) =
     Returns (None, Some (Errorf ''selector spec parse rejected: selector must be a map''))"
    using ParseExploreIndex_rejects
        [where n = "map_node [(''i'', int_node 2), (''>'', int_node 1)]"
        and ik = "''i''" and nk = "''>''"
        and PS = sample_ParseSelector and inode = "int_node 2" and nx = "Some (int_node 1)"
        and sel = None
        and e = "Errorf ''selector spec parse rejected: selector must be a map''"
        and r = None and e' = "Errorf ''''"]
    by (simp add: defs)
  from a b c d e show ?thesis by blast
qed

text \<open>
  C5. For an \<open>ExploreIndex\<close> holding a target segment, \<open>Explore\<close> on any node and any
  path segment returns the held next selector when the node is a list and the segment and
  the target both convert to the same integer; otherwise, also when either conversion
  fails, it returns \<^verbatim>\<open>nil\<close>. It returns in every case.
\<close>

theorem Explore_routes:
  "ExploreIndex_interest s = t # ts \<longrightarrow>
   ExploreIndex_Explore Atoi s n p =
     Returns (if Node_ReprKind n = ReprKind_List \<and>
                 snd (PathSegment_Index Atoi p) = None \<and>
                 snd (PathSegment_Index Atoi t) = None \<and>
                 fst (PathSegment_Index Atoi p) = fst (PathSegment_Index Atoi t)
              then ExploreIndex_next s else None)"
  using Explore_nonempty [of s t ts Atoi n p] by blast

theorem Explore_routes_witness:
  "ExploreIndex_interest (ExploreIndex (Some (Selector_Other ())) [PathSegmentInt 2])
     = PathSegmentInt 2 # [] \<and>
   ExploreIndex_Explore sample_Atoi (ExploreIndex (Some (Selector_Other ())) [PathSegmentInt 2])
     list_node (PathSegmentInt 2) = Returns (Some (Selector_Other ())) \<and>
   ExploreIndex_Explore sample_Atoi (ExploreIndex (Some (Selector_Other ())) [PathSegmentInt 2])
     list_node (PathSegmentString ''2'') = Returns (Some (Selector_Other ())) \<and>
   ExploreIndex_Explore sample_Atoi (ExploreIndex (Some (Selector_Other ())) [PathSegmentInt 2])
     list_node (PathSegmentInt 0) = Returns None \<and>
   ExploreIndex_Explore sample_Atoi (ExploreIndex (Some (Selector_Other ())) [PathSegmentInt 2])
     list_node (PathSegmentString ''not-an-int'') = Returns None \<and>
   ExploreIndex_Explore sample_Atoi (ExploreIndex (Some (Selector_Other ())) [PathSegmentInt 2])
     (map_node []) (PathSegmentInt 2) = Returns None"
  using
    Explore_routes [of "ExploreIndex (Some (Selector_Other ())) [PathSegmentInt 2]"
      "PathSegmentInt 2" "[]" sample_Atoi list_node "PathSegmentInt 2"]
    Explore_routes [of "ExploreIndex (Some (Selector_Other ())) [PathSegmentInt 2]"
      "PathSegmentInt 2" "[]" sample_Atoi list_node "PathSegmentString ''2''"]
    Explore_routes [of "ExploreIndex (Some (Selector_Other ())) [PathSegmentInt 2]"
      "PathSegmentInt 2" "[]" sample_Atoi list_node "PathSegmentInt 0"]
    Explore_routes [of "ExploreIndex (Some (Selector_Other ())) [PathSegmentInt 2]"
      "PathSegmentInt 2" "[]" sample_Atoi list_node "PathSegmentString ''not-an-int''"]
    Explore_routes [of "ExploreIndex (Some (Selector_Other ())) [PathSegmentInt 2]"
      "PathSegmentInt 2" "[]" sample_Atoi "map_node []" "PathSegmentInt 2"]
  by (simp add: list_node_def map_node_def sample_Atoi_def)

text \<open>
  C7. \<open>Decide\<close> of an \<open>ExploreIndex\<close> is false for every selector value and every node.
\<close>

theorem Decide_never_selects:
  "ExploreIndex_Decide s n = False"
  by (simp add: ExploreIndex_Decide_def)

text \<open>
  C9. A selector returned by \<open>ParseExploreIndex\<close> without an error is an \<open>ExploreIndex\<close>
  whose interest list is exactly the one integer segment holding the value that \<open>AsInt\<close>
  gave for the index field. On every \<open>ExploreIndex\<close> of that shape \<open>Explore\<close> returns,
  for any node and any segment. An \<open>ExploreIndex\<close> with an empty interest list is not
  covered: on a list node its \<open>Explore\<close> panics at the read of the first segment.
\<close>

theorem parsed_selector_explores:
  "(ParseExploreIndex ik nk PS n = Returns (r, None) \<longrightarrow>
      (\<exists>nx iv inode.
         r = Some (Selector_ExploreIndex (ExploreIndex nx [PathSegmentInt iv])) \<and>
         Node_TraverseField n ik = (Some inode, None) \<and> Node_AsInt inode = (iv, None))) \<and>
   (\<exists>res. ExploreIndex_Explore Atoi (ExploreIndex nx' [PathSegmentInt iv']) m p = Returns res) \<and>
   (Node_ReprKind m = ReprKind_List \<longrightarrow>
      ExploreIndex_Explore Atoi (ExploreIndex nx' []) m p =
        Panics ''runtime error: index out of range [0] with length 0'')"
proof (intro conjI impI)
  assume "ParseExploreIndex ik nk PS n = Returns (r, None)"
  then show "\<exists>nx iv inode.
         r = Some (Selector_ExploreIndex (ExploreIndex nx [PathSegmentInt iv])) \<and>
         Node_TraverseField n ik = (Some inode, None) \<and> Node_AsInt inode = (iv, None)"
    by (rule ParseExploreIndex_success)
next
  show "\<exists>res. ExploreIndex_Explore Atoi (ExploreIndex nx' [PathSegmentInt iv']) m p = Returns res"
    using Explore_nonempty [of "ExploreIndex nx' [PathSegmentInt iv']" "PathSegmentInt iv'" "[]"
        Atoi m p]
    by simp
next
  assume "Node_ReprKind m = ReprKind_List"
  then show "ExploreIndex_Explore Atoi (ExploreIndex nx' []) m p =
        Panics ''runtime error: index out of range [0] with length 0''"
    by (simp add: Explore_empty)
qed

theorem parsed_selector_explores_witness:
  "ParseExploreIndex ''i'' ''>'' sample_ParseSelector
       (map_node [(''i'', int_node 2), (''>'', map_node [])]) =
     Returns (Some (Selector_ExploreIndex
       (ExploreIndex (Some (Selector_Other ())) [PathSegmentInt 2])), None) \<and>
   Node_TraverseField (map_node [(''i'', int_node 2), (''>'', map_node [])]) ''i''
     = (Some (int_node 2), None) \<and>
   Node_AsInt (int_node 2) = (2, None) \<and>
   Node_ReprKind list_node = ReprKind_List \<and>
   ExploreIndex_Explore sample_Atoi (ExploreIndex (Some (Selector_Other ())) []) list_node
       (PathSegmentInt 2) =
     Panics ''runtime error: index out of range [0] with length 0''"
  using parsed_selector_explores [where n = "map_node [(''i'', int_node 2), (''>'', map_node [])]"
      and ik = "''i''" and nk = "''>''" and PS = sample_ParseSelector
      and r = "Some (Selector_ExploreIndex
        (ExploreIndex (Some (Selector_Other ())) [PathSegmentInt 2]))"
      and Atoi = sample_Atoi and nx' = "Some (Selector_Other ())" and iv' = 2
      and m = list_node and p = "PathSegmentInt 2"]
  by (simp add: ParseExploreIndex_def int_node_def map_node_def list_node_def
      sample_ParseSelector_def)

end
